theory Spec2Isabelle
  imports Main "HOL-Library.AList"
begin

section \<open>The graph of graph.js as a state record\<close>

text \<open>
  The class \<open>Graph\<close> of \<open>src/graph.js\<close> is embedded as functions over an explicit
  instance record. A method that can throw returns a sum (\<open>Inl\<close> the error); a method
  that also writes to the instance returns the pair of that sum and the instance as the
  call leaves it, so that whatever was written before a \<open>throw\<close> is still there.

  Conventions.
  \<^item> A leading underscore of the source is written \<open>p_\<close> (\<open>_addEdge\<close> is \<open>p_addEdge\<close>,
    \<open>this._nodes\<close> is \<open>p_nodes\<close>); the read-only properties \<open>map\<close>, \<open>multi\<close>,
    \<open>type\<close> and \<open>selfLoops\<close>, closures over the constructor's locals, are the fields
    \<open>opt_map\<close>, \<open>opt_multi\<close>, \<open>opt_type\<close>, \<open>opt_selfLoops\<close>.
  \<^item> The methods that dispatch on \<open>arguments.length\<close> are split by arity:
    \<open>hasEdge1\<close> is \<open>hasEdge(edge)\<close>, \<open>hasEdge2\<close> is \<open>hasEdge(source, target)\<close>.
  \<^item> A counter is a JavaScript number or \<open>undefined\<close>: \<open>Num n\<close>, \<open>NaN\<close>, \<open>Undefined\<close>.
\<close>

subsection \<open>Ids\<close>

text \<open>
  The id of a node or of an edge is any JavaScript value (\<open>@param {any}\<close>). The ids of
  the model are the strings, the natural numbers and \<open>undefined\<close>; a number \<open>n\<close> is
  meant below \<open>2^53\<close>, where every integer is a JavaScript number and is written in
  plain decimal. Two ids are \<open>===\<close> exactly when they are equal here: \<open>Number 1\<close> and
  \<open>Str ''1''\<close> are not.
\<close>

datatype key = Str string | Number nat | UndefinedKey

fun decimal :: "nat \<Rightarrow> string" where
  "decimal n =
     (if n < 10 then [char_of (48 + n)]
      else decimal (n div 10) @ [char_of (48 + n mod 10)])"

declare decimal.simps [simp del]

text \<open>The property name an id is coerced to when it indexes a plain object.\<close>

fun name_of :: "key \<Rightarrow> string" where
  "name_of (Str s) = s"
| "name_of (Number n) = decimal n"
| "name_of UndefinedKey = ''undefined''"

text \<open>The truthiness of an id: the empty string, \<open>0\<close> and \<open>undefined\<close> are falsy.\<close>

fun truthy_key :: "key \<Rightarrow> bool" where
  "truthy_key (Str s) = (s \<noteq> [])"
| "truthy_key (Number n) = (n \<noteq> 0)"
| "truthy_key UndefinedKey = False"

text \<open>
  The names every plain object inherits from \<open>Object.prototype\<close>: \<open>name in {}\<close> is true
  for them, and \<open>{}[name]\<close> is a built-in object (a function, or \<open>Object.prototype\<close>
  itself for \<open>__proto__\<close>), not \<open>undefined\<close>.
\<close>

definition prototype_names :: "string list" where
  "prototype_names =
     [''constructor'', ''__defineGetter__'', ''__defineSetter__'', ''hasOwnProperty'',
      ''__lookupGetter__'', ''__lookupSetter__'', ''isPrototypeOf'',
      ''propertyIsEnumerable'', ''toString'', ''valueOf'', ''__proto__'',
      ''toLocaleString'']"

subsection \<open>Values and records\<close>

datatype error =
  InvalidArgumentsGraphError | NotFoundGraphError | UsageGraphError | TypeError

datatype graph_type = Directed | Undirected | Mixed

datatype jsnum = Undefined | NaN | Num int

text \<open>\<open>a + b\<close> on counters: a number plus \<open>undefined\<close> or \<open>NaN\<close> is \<open>NaN\<close>.\<close>

fun js_plus :: "jsnum \<Rightarrow> jsnum \<Rightarrow> jsnum" where
  "js_plus (Num a) (Num b) = Num (a + b)"
| "js_plus _ _ = NaN"

text \<open>\<open>x++\<close> and \<open>x--\<close> on a property: \<open>undefined\<close> becomes \<open>NaN\<close>.\<close>

fun js_incr :: "jsnum \<Rightarrow> jsnum" where
  "js_incr (Num a) = Num (a + 1)"
| "js_incr _ = NaN"

fun js_decr :: "jsnum \<Rightarrow> jsnum" where
  "js_decr (Num a) = Num (a - 1)"
| "js_decr _ = NaN"

type_synonym attributes = "(string \<times> string) list"

text \<open>
  What a caller can pass where attributes are expected: \<open>undefined\<close> (also an argument
  left out), another falsy value (\<open>null\<close>, \<open>0\<close>, \<open>false\<close>, the empty string), a plain
  object, or any other truthy value (a number, a string, an array, a function).
\<close>

datatype jsarg = ArgUndefined | ArgFalsy | ArgPlain attributes | ArgOther

text \<open>
  Modelled from the spec: \<open>isPlainObject\<close> of \<open>./utils\<close>, which is not among the
  sources (attributes, if present, must be a plain mapping).
\<close>

fun isPlainObject :: "jsarg \<Rightarrow> bool" where
  "isPlainObject (ArgPlain a) = True"
| "isPlainObject _ = False"

text \<open>\<open>attributes || {}\<close>\<close>

fun or_empty :: "jsarg \<Rightarrow> jsarg" where
  "or_empty ArgUndefined = ArgPlain []"
| "or_empty ArgFalsy = ArgPlain []"
| "or_empty a = a"

text \<open>
  An adjacency register maps a neighbour to the set of the edges to it. The set
  (\<open>BasicSet\<close> or an ES2015 \<open>Set\<close>) is the list of its members in insertion order.
\<close>

type_synonym register = "(key \<times> key list) list"

text \<open>
  The properties the graph reads and writes on the record of a node. Each can be
  missing: a counter is then \<open>Undefined\<close>, a register \<open>None\<close>, the attributes
  \<open>ArgUndefined\<close>.
\<close>

record node_data =
  n_attributes :: jsarg
  n_selfLoops :: jsnum
  n_inDegree :: jsnum
  n_outDegree :: jsnum
  n_undirectedDegree :: jsnum
  n_out :: "register option"
  n_in :: "register option"
  n_undirectedOut :: "register option"
  n_undirectedIn :: "register option"

record edge_data =
  e_undirected :: bool
  e_attributes :: jsarg
  e_source :: key
  e_target :: key

record index_info =
  computed :: bool
  synchronized :: bool

record indices =
  ix_structure :: index_info
  ix_neighbors :: index_info

type_synonym generator = "bool \<Rightarrow> key \<Rightarrow> key \<Rightarrow> jsarg \<Rightarrow> key"

text \<open>
  The instance. A store (\<open>_nodes\<close>, \<open>_edges\<close>: a plain object, or an ES2015 \<open>Map\<close>
  when \<open>map\<close> is true) is the association list of its own entries in insertion order,
  one per key; the numeric ordering of integer-like property names is outside the
  model. With the instance goes what its methods have written on the built-in objects
  that a plain store inherits: \<open>p_builtins\<close> holds, by name, the node properties of
  those that have been written to.
\<close>

record graph =
  p_order :: int
  p_size :: int
  p_nodes :: "(key \<times> node_data) list"
  p_edges :: "(key \<times> edge_data) list"
  p_indices :: indices
  p_edgeKeyGenerator :: generator
  p_builtins :: "(string \<times> node_data) list"
  opt_map :: bool
  opt_multi :: bool
  opt_type :: graph_type
  opt_selfLoops :: bool

type_synonym 'a result = "(error + 'a) \<times> graph"

subsection \<open>The constructor\<close>

text \<open>
  The options as the constructor resolves them: a missing or falsy option takes its
  default. The \<open>typeof\<close> checks of the constructor cannot fail on options of these
  types. The default generator \<open>uuid\<close> of \<open>./utils\<close> is not among the sources and is a
  parameter. The constructor never reads its \<open>data\<close> argument. The graph is
  constructed where nothing has been written on the built-in objects yet.
\<close>

record options =
  o_allowSelfLoops :: "bool option"
  o_edgeKeyGenerator :: "generator option"
  o_map :: "bool option"
  o_multi :: "bool option"
  o_type :: "graph_type option"

definition no_options :: options where
  "no_options = \<lparr>o_allowSelfLoops = None, o_edgeKeyGenerator = None, o_map = None,
     o_multi = None, o_type = None\<rparr>"

definition Graph :: "generator \<Rightarrow> options \<Rightarrow> graph" where
  "Graph uuid opts =
     \<lparr>p_order = 0, p_size = 0, p_nodes = [], p_edges = [],
      p_indices = \<lparr>ix_structure = \<lparr>computed = False, synchronized = True\<rparr>,
                   ix_neighbors = \<lparr>computed = False, synchronized = True\<rparr>\<rparr>,
      p_edgeKeyGenerator = (case o_edgeKeyGenerator opts of None \<Rightarrow> uuid | Some f \<Rightarrow> f),
      p_builtins = [],
      opt_map = (case o_map opts of None \<Rightarrow> False | Some b \<Rightarrow> b),
      opt_multi = (case o_multi opts of None \<Rightarrow> False | Some b \<Rightarrow> b),
      opt_type = (case o_type opts of None \<Rightarrow> Mixed | Some t \<Rightarrow> t),
      opt_selfLoops = (case o_allowSelfLoops opts of None \<Rightarrow> True | Some b \<Rightarrow> b)\<rparr>"

subsection \<open>Access to the stores\<close>

text \<open>
  The key a store files an id under: a \<open>Map\<close> keeps the id itself, a plain object
  the property name the id is coerced to.
\<close>

definition slot :: "graph \<Rightarrow> key \<Rightarrow> key" where
  "slot g k = (if opt_map g then k else Str (name_of k))"

text \<open>
  The id names a property that the plain stores of the graph inherit. A \<open>Map\<close>
  inherits no entry.
\<close>

definition inherited :: "graph \<Rightarrow> key \<Rightarrow> bool" where
  "inherited g k \<longleftrightarrow> \<not> opt_map g \<and> name_of k \<in> set prototype_names"

text \<open>A built-in object before anything is written on it has none of the properties.\<close>

definition blank :: node_data where
  "blank = \<lparr>n_attributes = ArgUndefined, n_selfLoops = Undefined, n_inDegree = Undefined,
     n_outDegree = Undefined, n_undirectedDegree = Undefined,
     n_out = None, n_in = None, n_undirectedOut = None, n_undirectedIn = None\<rparr>"

definition builtin :: "graph \<Rightarrow> key \<Rightarrow> node_data" where
  "builtin g k = (case map_of (p_builtins g) (name_of k) of None \<Rightarrow> blank | Some d \<Rightarrow> d)"

text \<open>
  \<open>this.map ? this._nodes.get(node) : this._nodes[node]\<close>: the record stored for the
  node; for an inherited name that is not stored, the built-in object; otherwise
  \<open>undefined\<close>.
\<close>

definition nodes_get :: "graph \<Rightarrow> key \<Rightarrow> node_data option" where
  "nodes_get g node =
     (case map_of (p_nodes g) (slot g node) of
        Some data \<Rightarrow> Some data
      | None \<Rightarrow> (if inherited g node then Some (builtin g node) else None))"

text \<open>
  A write to properties of the object \<open>nodes_get\<close> finds: \<open>f\<close> is the change to its
  properties. There is nothing to write to when \<open>nodes_get\<close> finds nothing; the callers
  test that first.
\<close>

definition nodes_write :: "key \<Rightarrow> (node_data \<Rightarrow> node_data) \<Rightarrow> graph \<Rightarrow> graph" where
  "nodes_write node f g =
     (case map_of (p_nodes g) (slot g node) of
        Some data \<Rightarrow> g\<lparr>p_nodes := AList.map_entry (slot g node) f (p_nodes g)\<rparr>
      | None \<Rightarrow>
          (if inherited g node
           then g\<lparr>p_builtins := AList.update (name_of node) (f (builtin g node)) (p_builtins g)\<rparr>
           else g))"

text \<open>
  What the methods read of the object found under an inherited name in the edge store:
  a built-in object has no \<open>source\<close>, no \<open>target\<close> and no \<open>undirected\<close>, and
  \<open>undefined\<close> is falsy where \<open>undirected\<close> is tested.
\<close>

definition builtin_edge :: edge_data where
  "builtin_edge = \<lparr>e_undirected = False, e_attributes = ArgUndefined,
     e_source = UndefinedKey, e_target = UndefinedKey\<rparr>"

text \<open>
  \<open>this.map ? this._edges.get(edge) : this._edges[edge]\<close>: the stored record; for
  an inherited name that is not stored, a built-in object; otherwise \<open>undefined\<close>.
\<close>

definition edges_get :: "graph \<Rightarrow> key \<Rightarrow> edge_data option" where
  "edges_get g edge =
     (case map_of (p_edges g) (slot g edge) of
        Some data \<Rightarrow> Some data
      | None \<Rightarrow> (if inherited g edge then Some builtin_edge else None))"

subsection \<open>The structure index\<close>

text \<open>
  Modelled from the spec: \<open>INDICES\<close> of \<open>./indices\<close>, which is not among the sources.
  The names are those of the two entries of \<open>this._indices\<close>.
\<close>

definition INDICES :: "string list" where
  "INDICES = [''structure'', ''neighbors'']"

text \<open>Adding to a set keeps the first insertion's place.\<close>

definition set_add :: "key \<Rightarrow> key list \<Rightarrow> key list" where
  "set_add e s = (if e \<in> set s then s else s @ [e])"

text \<open>
  Inserting an edge under a neighbour, creating the register and the neighbour's set on
  demand.
\<close>

definition register_add :: "key \<Rightarrow> key \<Rightarrow> register option \<Rightarrow> register option" where
  "register_add neighbor e r =
     (let reg = (case r of None \<Rightarrow> [] | Some x \<Rightarrow> x);
          s = (case map_of reg neighbor of None \<Rightarrow> [] | Some x \<Rightarrow> x)
      in Some (AList.update neighbor (set_add e s) reg))"

text \<open>Removing an edge from under a neighbour; a set that becomes empty is pruned.\<close>

definition register_remove :: "key \<Rightarrow> key \<Rightarrow> register option \<Rightarrow> register option" where
  "register_remove neighbor e r =
     (case r of
        None \<Rightarrow> None
      | Some reg \<Rightarrow>
          (case map_of reg neighbor of
             None \<Rightarrow> Some reg
           | Some s \<Rightarrow>
               (if removeAll e s = [] then Some (AList.delete neighbor reg)
                else Some (AList.update neighbor (removeAll e s) reg))))"

definition add_out :: "bool \<Rightarrow> key \<Rightarrow> key \<Rightarrow> node_data \<Rightarrow> node_data" where
  "add_out und neighbor e d =
     (if und then d\<lparr>n_undirectedOut := register_add neighbor e (n_undirectedOut d)\<rparr>
      else d\<lparr>n_out := register_add neighbor e (n_out d)\<rparr>)"

definition add_in :: "bool \<Rightarrow> key \<Rightarrow> key \<Rightarrow> node_data \<Rightarrow> node_data" where
  "add_in und neighbor e d =
     (if und then d\<lparr>n_undirectedIn := register_add neighbor e (n_undirectedIn d)\<rparr>
      else d\<lparr>n_in := register_add neighbor e (n_in d)\<rparr>)"

definition remove_out :: "bool \<Rightarrow> key \<Rightarrow> key \<Rightarrow> node_data \<Rightarrow> node_data" where
  "remove_out und neighbor e d =
     (if und then d\<lparr>n_undirectedOut := register_remove neighbor e (n_undirectedOut d)\<rparr>
      else d\<lparr>n_out := register_remove neighbor e (n_out d)\<rparr>)"

definition remove_in :: "bool \<Rightarrow> key \<Rightarrow> key \<Rightarrow> node_data \<Rightarrow> node_data" where
  "remove_in und neighbor e d =
     (if und then d\<lparr>n_undirectedIn := register_remove neighbor e (n_undirectedIn d)\<rparr>
      else d\<lparr>n_in := register_remove neighbor e (n_in d)\<rparr>)"

text \<open>
  Modelled from the spec: \<open>updateStructureIndex\<close> of \<open>./indices\<close>, which is not among
  the sources. The edge is inserted under the target in the source's \<open>out\<close> register and
  under the source in the target's \<open>in\<close> register (\<open>undirectedOut\<close> and \<open>undirectedIn\<close>
  for an undirected edge), nested registers being created on demand. The registers are
  properties of the objects the node store gives for the source and the target, where
  \<open>getDirectedEdge\<close> reads them (\<open>nodeData.out\<close>). A register and its sets file a
  neighbour and an edge as the stores do, a plain register under the property name
  (\<open>register[target]\<close>) and a \<open>Map\<close> under the id itself (\<open>register.get(target)\<close>),
  and they inherit no entry. Where the node store gives no object there is nothing to
  write to.
\<close>

definition updateStructureIndex :: "graph \<Rightarrow> key \<Rightarrow> edge_data \<Rightarrow> graph" where
  "updateStructureIndex g edge data =
     nodes_write (e_target data)
       (add_in (e_undirected data) (slot g (e_source data)) (slot g edge))
       (nodes_write (e_source data)
          (add_out (e_undirected data) (slot g (e_target data)) (slot g edge)) g)"

text \<open>
  Modelled from the spec: \<open>clearEdgeFromStructureIndex\<close> of \<open>./indices\<close>, which is not
  among the sources: the edge is removed from the registers \<open>updateStructureIndex\<close>
  wrote it to, and a neighbour's set that becomes empty is pruned.
\<close>

definition clearEdgeFromStructureIndex :: "graph \<Rightarrow> key \<Rightarrow> edge_data \<Rightarrow> graph" where
  "clearEdgeFromStructureIndex g edge data =
     nodes_write (e_target data)
       (remove_in (e_undirected data) (slot g (e_source data)) (slot g edge))
       (nodes_write (e_source data)
          (remove_out (e_undirected data) (slot g (e_target data)) (slot g edge)) g)"

definition discard_registers :: "node_data \<Rightarrow> node_data" where
  "discard_registers d =
     d\<lparr>n_out := None, n_in := None, n_undirectedOut := None, n_undirectedIn := None\<rparr>"

text \<open>
  Modelled from the spec: \<open>clearStructureIndex\<close> of \<open>./indices\<close>, which is not among
  the sources: the registers of all the nodes of the store are discarded.
\<close>

definition clearStructureIndex :: "graph \<Rightarrow> graph" where
  "clearStructureIndex g = g\<lparr>p_nodes := map (\<lambda>(k, d). (k, discard_registers d)) (p_nodes g)\<rparr>"

definition set_structure_computed :: "bool \<Rightarrow> graph \<Rightarrow> graph" where
  "set_structure_computed b g =
     g\<lparr>p_indices := (p_indices g)\<lparr>ix_structure := (ix_structure (p_indices g))\<lparr>computed := b\<rparr>\<rparr>\<rparr>"

definition p_updateIndex :: "graph \<Rightarrow> string \<Rightarrow> key \<Rightarrow> edge_data \<Rightarrow> unit result" where
  "p_updateIndex g name edge data =
     (if name \<notin> set INDICES then (Inl InvalidArgumentsGraphError, g)
      else if name = ''structure'' then
        (if \<not> computed (ix_structure (p_indices g)) then (Inr (), g)
         else (Inr (), updateStructureIndex g edge data))
      else (Inr (), g))"

definition p_clearEdgeFromIndex :: "graph \<Rightarrow> string \<Rightarrow> key \<Rightarrow> edge_data \<Rightarrow> unit result" where
  "p_clearEdgeFromIndex g name edge data =
     (if name \<notin> set INDICES then (Inl InvalidArgumentsGraphError, g)
      else if name = ''structure'' then
        (if \<not> computed (ix_structure (p_indices g)) then (Inr (), g)
         else (Inr (), clearEdgeFromStructureIndex g edge data))
      else (Inr (), g))"

text \<open>
  The loop of \<open>computeIndex\<close> over the stored edges, which are the own entries of the
  edge store: \<open>es\<close> are the entries still to visit. An error of \<open>_updateIndex\<close> ends
  the loop.
\<close>

fun updateIndex_each :: "graph \<Rightarrow> string \<Rightarrow> (key \<times> edge_data) list \<Rightarrow> unit result" where
  "updateIndex_each g name [] = (Inr (), g)"
| "updateIndex_each g name ((edge, data) # es) =
     (case p_updateIndex g name edge data of
        (Inl err, g') \<Rightarrow> (Inl err, g')
      | (Inr u, g') \<Rightarrow> updateIndex_each g' name es)"

definition computeIndex :: "graph \<Rightarrow> string \<Rightarrow> unit result" where
  "computeIndex g name =
     (if name \<notin> set INDICES then (Inl InvalidArgumentsGraphError, g)
      else if name = ''structure'' then
        (if computed (ix_structure (p_indices g)) then (Inr (), g)
         else updateIndex_each (set_structure_computed True g) name (p_edges g))
      else (Inr (), g))"

definition clearIndex :: "graph \<Rightarrow> string \<Rightarrow> unit result" where
  "clearIndex g name =
     (if name \<notin> set INDICES then (Inl InvalidArgumentsGraphError, g)
      else if name = ''structure'' then
        (if \<not> computed (ix_structure (p_indices g)) then (Inr (), g)
         else (Inr (), set_structure_computed False (clearStructureIndex g)))
      else (Inr (), g))"

subsection \<open>Reading\<close>

text \<open>
  \<open>this._nodes.has(node)\<close> for a \<open>Map\<close>, \<open>node in this._nodes\<close> for a plain object:
  the operator \<open>in\<close> also finds the names the object inherits.
\<close>

definition hasNode :: "graph \<Rightarrow> key \<Rightarrow> bool" where
  "hasNode g node = (map_of (p_nodes g) (slot g node) \<noteq> None \<or> inherited g node)"

definition hasEdge1 :: "graph \<Rightarrow> key \<Rightarrow> bool" where
  "hasEdge1 g edge = (map_of (p_edges g) (slot g edge) \<noteq> None \<or> inherited g edge)"

text \<open>
  \<open>undirected(edge)\<close> returns the \<open>undirected\<close> property of what the edge store gives:
  the flag of a stored record, and \<open>undefined\<close> (\<open>None\<close>) for a built-in object.
\<close>

definition undirected :: "graph \<Rightarrow> key \<Rightarrow> error + bool option" where
  "undirected g edge =
     (if \<not> hasEdge1 g edge then Inl NotFoundGraphError
      else (case map_of (p_edges g) (slot g edge) of
              Some data \<Rightarrow> Inr (Some (e_undirected data))
            | None \<Rightarrow> (if inherited g edge then Inr None else Inl TypeError)))"

text \<open>\<open>!this.undirected(edge)\<close>; \<open>undefined\<close> is falsy.\<close>

definition directed :: "graph \<Rightarrow> key \<Rightarrow> error + bool" where
  "directed g edge =
     (if \<not> hasEdge1 g edge then Inl NotFoundGraphError
      else (case undirected g edge of Inl err \<Rightarrow> Inl err | Inr u \<Rightarrow> Inr (u \<noteq> Some True)))"

text \<open>What \<open>if (!edges) return; if (!edges.size) return; return edges.first()\<close> yields.\<close>

definition first_edge :: "key list option \<Rightarrow> key option" where
  "first_edge edges =
     (case edges of None \<Rightarrow> None | Some [] \<Rightarrow> None | Some (e # es) \<Rightarrow> Some e)"

text \<open>
  The lookup of a register that may be \<open>undefined\<close>, by the key the neighbour is filed
  under.
\<close>

definition register_get :: "register option \<Rightarrow> key \<Rightarrow> key list option" where
  "register_get register target =
     (case register of None \<Rightarrow> None | Some r \<Rightarrow> map_of r target)"

text \<open>
  The two registers of an undirected lookup: \<open>undirectedIn\<close> is read only when
  \<open>undirectedOut\<close> gave no set.
\<close>

definition undirected_edges :: "node_data \<Rightarrow> key \<Rightarrow> key list option" where
  "undirected_edges nodeData target =
     (case register_get (n_undirectedOut nodeData) target of
        Some edges \<Rightarrow> Some edges
      | None \<Rightarrow> register_get (n_undirectedIn nodeData) target)"

definition getDirectedEdge :: "graph \<Rightarrow> key \<Rightarrow> key \<Rightarrow> key option result" where
  "getDirectedEdge g source target =
     (case computeIndex g ''structure'' of
        (Inl err, g') \<Rightarrow> (Inl err, g')
      | (Inr u, g') \<Rightarrow>
          (if \<not> hasNode g' source \<or> \<not> hasNode g' target then (Inr None, g')
           else (case nodes_get g' source of
                   None \<Rightarrow> (Inl TypeError, g')
                 | Some nodeData \<Rightarrow>
                     (Inr (first_edge (register_get (n_out nodeData) (slot g' target))), g'))))"

definition getUndirectedEdge :: "graph \<Rightarrow> key \<Rightarrow> key \<Rightarrow> key option result" where
  "getUndirectedEdge g source target =
     (case computeIndex g ''structure'' of
        (Inl err, g') \<Rightarrow> (Inl err, g')
      | (Inr u, g') \<Rightarrow>
          (if \<not> hasNode g' source \<or> \<not> hasNode g' target then (Inr None, g')
           else (case nodes_get g' source of
                   None \<Rightarrow> (Inl TypeError, g')
                 | Some nodeData \<Rightarrow>
                     (Inr (first_edge (undirected_edges nodeData (slot g' target))), g'))))"

text \<open>The truthiness of what a lookup returned: \<open>undefined\<close> and a falsy id are falsy.\<close>

fun truthy :: "key option \<Rightarrow> bool" where
  "truthy None = False"
| "truthy (Some k) = truthy_key k"

definition getEdge :: "graph \<Rightarrow> key \<Rightarrow> key \<Rightarrow> key option result" where
  "getEdge g source target =
     (case (if opt_type g = Mixed \<or> opt_type g = Directed
            then getDirectedEdge g source target else (Inr None, g)) of
        (Inl err, g') \<Rightarrow> (Inl err, g')
      | (Inr edge, g') \<Rightarrow>
          (if truthy edge then (Inr edge, g')
           else if opt_type g' = Mixed \<or> opt_type g' = Undirected
                then getUndirectedEdge g' source target
                else (Inr edge, g')))"

text \<open>
  \<open>this.map ? this._edges.has(edge) : edge in this._edges && this.directed(edge)\<close>: the
  conditional operator binds weaker than \<open>&&\<close>, so the kind is read only when
  \<open>map\<close> is false. \<open>hasUndirectedEdge(edge)\<close> returns what \<open>undirected(edge)\<close>
  returned, which can be \<open>undefined\<close> (\<open>None\<close>).
\<close>

definition hasDirectedEdge1 :: "graph \<Rightarrow> key \<Rightarrow> error + bool" where
  "hasDirectedEdge1 g edge =
     (if opt_map g then Inr (hasEdge1 g edge)
      else if hasEdge1 g edge then directed g edge else Inr False)"

definition hasUndirectedEdge1 :: "graph \<Rightarrow> key \<Rightarrow> error + bool option" where
  "hasUndirectedEdge1 g edge =
     (if opt_map g then Inr (Some (hasEdge1 g edge))
      else if hasEdge1 g edge then undirected g edge else Inr (Some False))"

text \<open>What \<open>if (!edges) return false; return !!edges.size\<close> yields.\<close>

definition nonempty_edges :: "key list option \<Rightarrow> bool" where
  "nonempty_edges edges = (case edges of None \<Rightarrow> False | Some s \<Rightarrow> s \<noteq> [])"

definition hasDirectedEdge2 :: "graph \<Rightarrow> key \<Rightarrow> key \<Rightarrow> bool result" where
  "hasDirectedEdge2 g source target =
     (case computeIndex g ''structure'' of
        (Inl err, g') \<Rightarrow> (Inl err, g')
      | (Inr u, g') \<Rightarrow>
          (if \<not> hasNode g' source \<or> \<not> hasNode g' target then (Inr False, g')
           else (case nodes_get g' source of
                   None \<Rightarrow> (Inl TypeError, g')
                 | Some nodeData \<Rightarrow>
                     (Inr (nonempty_edges (register_get (n_out nodeData) (slot g' target))),
                      g'))))"

definition hasUndirectedEdge2 :: "graph \<Rightarrow> key \<Rightarrow> key \<Rightarrow> bool result" where
  "hasUndirectedEdge2 g source target =
     (case computeIndex g ''structure'' of
        (Inl err, g') \<Rightarrow> (Inl err, g')
      | (Inr u, g') \<Rightarrow>
          (if \<not> hasNode g' source \<or> \<not> hasNode g' target then (Inr False, g')
           else (case nodes_get g' source of
                   None \<Rightarrow> (Inl TypeError, g')
                 | Some nodeData \<Rightarrow>
                     (Inr (nonempty_edges (undirected_edges nodeData (slot g' target))),
                      g'))))"

text \<open>\<open>hasDirectedEdge(source, target) || hasUndirectedEdge(source, target)\<close>\<close>

definition hasEdge2 :: "graph \<Rightarrow> key \<Rightarrow> key \<Rightarrow> bool result" where
  "hasEdge2 g source target =
     (case hasDirectedEdge2 g source target of
        (Inl err, g') \<Rightarrow> (Inl err, g')
      | (Inr b, g') \<Rightarrow> (if b then (Inr True, g') else hasUndirectedEdge2 g' source target))"

text \<open>
  The degree methods. The second parameter defaults to \<open>true\<close>; a caller's value that
  is not a boolean is \<open>None\<close> here.
\<close>

definition degree :: "graph \<Rightarrow> key \<Rightarrow> bool option \<Rightarrow> error + jsnum" where
  "degree g node selfLoops =
     (case selfLoops of
        None \<Rightarrow> Inl InvalidArgumentsGraphError
      | Some sl \<Rightarrow>
          (if \<not> hasNode g node then Inl NotFoundGraphError
           else (case nodes_get g node of
                   None \<Rightarrow> Inl TypeError
                 | Some data \<Rightarrow>
                     Inr (js_plus
                            (js_plus (js_plus (n_outDegree data) (n_inDegree data))
                               (n_undirectedDegree data))
                            (if sl then n_selfLoops data else Num 0)))))"

definition directedDegree :: "graph \<Rightarrow> key \<Rightarrow> bool option \<Rightarrow> error + jsnum" where
  "directedDegree g node selfLoops =
     (case selfLoops of
        None \<Rightarrow> Inl InvalidArgumentsGraphError
      | Some sl \<Rightarrow>
          (if \<not> hasNode g node then Inl NotFoundGraphError
           else (case nodes_get g node of
                   None \<Rightarrow> Inl TypeError
                 | Some data \<Rightarrow>
                     Inr (js_plus (js_plus (n_outDegree data) (n_inDegree data))
                            (if sl then n_selfLoops data else Num 0)))))"

subsection \<open>Mutation\<close>

definition new_node_data :: "graph \<Rightarrow> jsarg \<Rightarrow> node_data" where
  "new_node_data g attributes =
     \<lparr>n_attributes = attributes, n_selfLoops = Num 0,
      n_inDegree = (if opt_type g = Mixed \<or> opt_type g = Directed then Num 0 else Undefined),
      n_outDegree = (if opt_type g = Mixed \<or> opt_type g = Directed then Num 0 else Undefined),
      n_undirectedDegree =
        (if opt_type g = Mixed \<or> opt_type g = Undirected then Num 0 else Undefined),
      n_out = None, n_in = None, n_undirectedOut = None, n_undirectedIn = None\<rparr>"

text \<open>
  \<open>addNode(node, attributes)\<close>; \<open>attributes\<close> is \<open>None\<close> for a call with one argument
  (\<open>arguments.length > 1\<close> is false). The record is stored under a key that
  \<open>hasNode\<close> has not found, so the assignment creates an own entry.
\<close>

definition addNode :: "graph \<Rightarrow> key \<Rightarrow> jsarg option \<Rightarrow> key result" where
  "addNode g node attributes =
     (if (case attributes of None \<Rightarrow> False | Some a \<Rightarrow> \<not> isPlainObject a)
      then (Inl InvalidArgumentsGraphError, g)
      else if hasNode g node then (Inl UsageGraphError, g)
      else (Inr node,
            g\<lparr>p_nodes :=
                AList.update (slot g node)
                  (new_node_data g
                     (or_empty (case attributes of None \<Rightarrow> ArgUndefined | Some a \<Rightarrow> a)))
                  (p_nodes g),
              p_order := p_order g + 1\<rparr>))"

text \<open>
  Modelled from the spec: \<open>isBunch\<close> and \<open>overBunch\<close> of \<open>./utils\<close>, which are not among
  the sources. A bunch is a caller-supplied collection of identifiers; what is not a
  bunch is \<open>None\<close>, and a bunch is the list of the (node, attributes) pairs the callback
  is called with, in order.
\<close>

type_synonym bunch = "(key \<times> jsarg) list option"

fun addNode_each :: "graph \<Rightarrow> (key \<times> jsarg) list \<Rightarrow> unit result" where
  "addNode_each g [] = (Inr (), g)"
| "addNode_each g ((node, attributes) # rest) =
     (case addNode g node (Some attributes) of
        (Inl err, g') \<Rightarrow> (Inl err, g')
      | (Inr n, g') \<Rightarrow> addNode_each g' rest)"

definition addNodesFrom :: "graph \<Rightarrow> bunch \<Rightarrow> unit result" where
  "addNodesFrom g bunch =
     (case bunch of
        None \<Rightarrow> (Inl InvalidArgumentsGraphError, g)
      | Some items \<Rightarrow> addNode_each g items)"

definition incr_selfLoops :: "node_data \<Rightarrow> node_data" where
  "incr_selfLoops d = d\<lparr>n_selfLoops := js_incr (n_selfLoops d)\<rparr>"

definition incr_undirectedDegree :: "node_data \<Rightarrow> node_data" where
  "incr_undirectedDegree d = d\<lparr>n_undirectedDegree := js_incr (n_undirectedDegree d)\<rparr>"

definition incr_outDegree :: "node_data \<Rightarrow> node_data" where
  "incr_outDegree d = d\<lparr>n_outDegree := js_incr (n_outDegree d)\<rparr>"

definition incr_inDegree :: "node_data \<Rightarrow> node_data" where
  "incr_inDegree d = d\<lparr>n_inDegree := js_incr (n_inDegree d)\<rparr>"

definition decr_selfLoops :: "node_data \<Rightarrow> node_data" where
  "decr_selfLoops d = d\<lparr>n_selfLoops := js_decr (n_selfLoops d)\<rparr>"

definition decr_undirectedDegree :: "node_data \<Rightarrow> node_data" where
  "decr_undirectedDegree d = d\<lparr>n_undirectedDegree := js_decr (n_undirectedDegree d)\<rparr>"

definition decr_outDegree :: "node_data \<Rightarrow> node_data" where
  "decr_outDegree d = d\<lparr>n_outDegree := js_decr (n_outDegree d)\<rparr>"

definition decr_inDegree :: "node_data \<Rightarrow> node_data" where
  "decr_inDegree d = d\<lparr>n_inDegree := js_decr (n_inDegree d)\<rparr>"

text \<open>
  The counters of \<open>_addEdge\<close>: a loop (\<open>source === target\<close>) counts on its node only,
  another edge on both its nodes, by its kind. \<open>sourceData\<close> and \<open>targetData\<close> are
  what the node store gives for the two ids, which the checks have found there.
\<close>

definition incr_counters :: "bool \<Rightarrow> key \<Rightarrow> key \<Rightarrow> graph \<Rightarrow> graph" where
  "incr_counters und source target g =
     (if source = target then nodes_write source incr_selfLoops g
      else if und then
        nodes_write target incr_undirectedDegree (nodes_write source incr_undirectedDegree g)
      else
        nodes_write target incr_inDegree (nodes_write source incr_outDegree g))"

text \<open>
  The part of \<open>_addEdge\<close> after the last check: the record is stored (under a key that
  \<open>hasEdge\<close> has not found, so as an own entry), \<open>_size\<close> and the node counters are
  incremented and the index is updated.
\<close>

definition store_edge :: "graph \<Rightarrow> bool \<Rightarrow> key \<Rightarrow> key \<Rightarrow> key \<Rightarrow> jsarg \<Rightarrow> key result" where
  "store_edge g und edge source target attributes =
     (let data = \<lparr>e_undirected = und, e_attributes = attributes,
                   e_source = source, e_target = target\<rparr>
      in (case p_updateIndex
                (incr_counters und source target
                   (g\<lparr>p_edges := AList.update (slot g edge) data (p_edges g),
                      p_size := p_size g + 1\<rparr>))
                ''structure'' edge data of
            (Inl err, g3) \<Rightarrow> (Inl err, g3)
          | (Inr u, g3) \<Rightarrow> (Inr edge, g3)))"

text \<open>
  \<open>_addEdge(name, undirected, edge, source, target, attributes)\<close>. The \<open>name\<close> only
  goes into the messages. Every caller passes six arguments, so
  \<open>arguments.length > 5\<close> holds, and \<open>attributes\<close> has been replaced by
  \<open>attributes || {}\<close> when it is tested.
\<close>

definition p_addEdge :: "graph \<Rightarrow> bool \<Rightarrow> key \<Rightarrow> key \<Rightarrow> key \<Rightarrow> jsarg \<Rightarrow> key result" where
  "p_addEdge g und edge source target attributes =
     (if \<not> und \<and> opt_type g = Undirected then (Inl UsageGraphError, g)
      else if und \<and> opt_type g = Directed then (Inl UsageGraphError, g)
      else if \<not> isPlainObject (or_empty attributes) then (Inl InvalidArgumentsGraphError, g)
      else if \<not> hasNode g source then (Inl NotFoundGraphError, g)
      else if \<not> hasNode g target then (Inl NotFoundGraphError, g)
      else if hasEdge1 g edge then (Inl UsageGraphError, g)
      else if \<not> opt_selfLoops g \<and> source = target then (Inl UsageGraphError, g)
      else (case (if opt_multi g then (Inr False, g)
                  else if und then hasUndirectedEdge2 g source target
                  else hasDirectedEdge2 g source target) of
              (Inl err, g') \<Rightarrow> (Inl err, g')
            | (Inr linked, g') \<Rightarrow>
                (if linked then (Inl UsageGraphError, g')
                 else store_edge g' und edge source target (or_empty attributes))))"

definition addEdgeWithKey :: "graph \<Rightarrow> key \<Rightarrow> key \<Rightarrow> key \<Rightarrow> jsarg \<Rightarrow> key result" where
  "addEdgeWithKey g edge source target attributes =
     p_addEdge g (opt_type g = Undirected) edge source target attributes"

definition addDirectedEdgeWithKey :: "graph \<Rightarrow> key \<Rightarrow> key \<Rightarrow> key \<Rightarrow> jsarg \<Rightarrow> key result" where
  "addDirectedEdgeWithKey g edge source target attributes =
     p_addEdge g False edge source target attributes"

definition addUndirectedEdgeWithKey :: "graph \<Rightarrow> key \<Rightarrow> key \<Rightarrow> key \<Rightarrow> jsarg \<Rightarrow> key result" where
  "addUndirectedEdgeWithKey g edge source target attributes =
     p_addEdge g True edge source target attributes"

definition addEdge :: "graph \<Rightarrow> key \<Rightarrow> key \<Rightarrow> jsarg \<Rightarrow> key result" where
  "addEdge g source target attributes =
     (let edge = p_edgeKeyGenerator g (opt_type g = Undirected) source target attributes
      in p_addEdge g (opt_type g = Undirected) edge source target attributes)"

definition addDirectedEdge :: "graph \<Rightarrow> key \<Rightarrow> key \<Rightarrow> jsarg \<Rightarrow> key result" where
  "addDirectedEdge g source target attributes =
     (let edge = p_edgeKeyGenerator g False source target attributes
      in p_addEdge g False edge source target attributes)"

definition addUndirectedEdge :: "graph \<Rightarrow> key \<Rightarrow> key \<Rightarrow> jsarg \<Rightarrow> key result" where
  "addUndirectedEdge g source target attributes =
     (let edge = p_edgeKeyGenerator g False source target attributes
      in p_addEdge g True edge source target attributes)"

text \<open>
  The counters of \<open>dropEdge\<close>. \<open>sourceData\<close> and \<open>targetData\<close> are what the node
  store gives for the \<open>source\<close> and the \<open>target\<close> read from the edge; decrementing a
  property of \<open>undefined\<close> is a \<open>TypeError\<close>, thrown after what was written before it.
\<close>

definition drop_counters :: "graph \<Rightarrow> edge_data \<Rightarrow> unit result" where
  "drop_counters g data =
     (if e_source data = e_target data then
        (case nodes_get g (e_source data) of
           None \<Rightarrow> (Inl TypeError, g)
         | Some sourceData \<Rightarrow> (Inr (), nodes_write (e_source data) decr_selfLoops g))
      else if e_undirected data then
        (case nodes_get g (e_source data) of
           None \<Rightarrow> (Inl TypeError, g)
         | Some sourceData \<Rightarrow>
             (case nodes_get g (e_target data) of
                None \<Rightarrow> (Inl TypeError, nodes_write (e_source data) decr_undirectedDegree g)
              | Some targetData \<Rightarrow>
                  (Inr (),
                   nodes_write (e_target data) decr_undirectedDegree
                     (nodes_write (e_source data) decr_undirectedDegree g))))
      else
        (case nodes_get g (e_source data) of
           None \<Rightarrow> (Inl TypeError, g)
         | Some sourceData \<Rightarrow>
             (case nodes_get g (e_target data) of
                None \<Rightarrow> (Inl TypeError, nodes_write (e_source data) decr_outDegree g)
              | Some targetData \<Rightarrow>
                  (Inr (),
                   nodes_write (e_target data) decr_inDegree
                     (nodes_write (e_source data) decr_outDegree g)))))"

text \<open>
  \<open>dropEdge(edge)\<close>. The guard is \<open>hasEdge\<close>, so for a plain store an inherited name
  passes it: \<open>data\<close> is then a built-in object, \<open>delete\<close> finds no own entry to
  remove, and \<open>_size\<close> is decremented all the same.
\<close>

definition dropEdge :: "graph \<Rightarrow> key \<Rightarrow> unit result" where
  "dropEdge g edge =
     (if \<not> hasEdge1 g edge then (Inl NotFoundGraphError, g)
      else (case edges_get g edge of
              None \<Rightarrow> (Inl TypeError, g)
            | Some data \<Rightarrow>
                (case drop_counters
                        (g\<lparr>p_edges := AList.delete (slot g edge) (p_edges g),
                           p_size := p_size g - 1\<rparr>)
                        data of
                   (Inl err, g') \<Rightarrow> (Inl err, g')
                 | (Inr u, g') \<Rightarrow> p_clearEdgeFromIndex g' ''structure'' edge data)))"

text \<open>
  Modelled from the spec: \<open>edges(node)\<close> of \<open>./iteration/edges\<close>, which is not among
  the sources: the keys of the edges attached to the node (\<open>docs/iteration.md\<close>), here
  the keys of the stored edges whose source or target is filed under the key of the
  node, in the order of the edge store, each once.
\<close>

definition edges :: "graph \<Rightarrow> key \<Rightarrow> key list" where
  "edges g node =
     map fst (filter (\<lambda>(k, d). slot g (e_source d) = slot g node \<or>
                                slot g (e_target d) = slot g node) (p_edges g))"

text \<open>The loop of \<open>dropNode\<close> over the array \<open>edges\<close> it took before the loop.\<close>

fun dropEdge_each :: "graph \<Rightarrow> key list \<Rightarrow> unit result" where
  "dropEdge_each g [] = (Inr (), g)"
| "dropEdge_each g (edge # rest) =
     (case dropEdge g edge of
        (Inl err, g') \<Rightarrow> (Inl err, g')
      | (Inr u, g') \<Rightarrow> dropEdge_each g' rest)"

text \<open>
  \<open>dropNode(node)\<close>. As in \<open>dropEdge\<close>, an inherited name passes the guard of a plain
  store; \<open>delete\<close> then removes nothing and \<open>_order\<close> is decremented all the same.
\<close>

definition dropNode :: "graph \<Rightarrow> key \<Rightarrow> unit result" where
  "dropNode g node =
     (if \<not> hasNode g node then (Inl NotFoundGraphError, g)
      else (case dropEdge_each g (edges g node) of
              (Inl err, g') \<Rightarrow> (Inl err, g')
            | (Inr u, g') \<Rightarrow>
                (Inr (),
                 g'\<lparr>p_nodes := AList.delete (slot g' node) (p_nodes g'),
                    p_order := p_order g' - 1\<rparr>)))"

definition clear :: "graph \<Rightarrow> graph" where
  "clear g =
     g\<lparr>p_edges := [], p_nodes := [], p_order := 0, p_size := 0,
       p_indices :=
         \<lparr>ix_structure = (ix_structure (p_indices g))\<lparr>computed := False\<rparr>,
          ix_neighbors = (ix_neighbors (p_indices g))\<lparr>computed := False\<rparr>\<rparr>\<rparr>"

subsection \<open>The extremities of an edge\<close>

text \<open>
  \<open>source(edge)\<close> and \<open>target(edge)\<close> return the property of what the edge store
  gives, which is \<open>undefined\<close> for a built-in object.
\<close>

definition source :: "graph \<Rightarrow> key \<Rightarrow> error + key" where
  "source g edge =
     (if \<not> hasEdge1 g edge then Inl NotFoundGraphError
      else (case edges_get g edge of
              None \<Rightarrow> Inl TypeError
            | Some data \<Rightarrow> Inr (e_source data)))"

definition target :: "graph \<Rightarrow> key \<Rightarrow> error + key" where
  "target g edge =
     (if \<not> hasEdge1 g edge then Inl NotFoundGraphError
      else (case edges_get g edge of
              None \<Rightarrow> Inl TypeError
            | Some data \<Rightarrow> Inr (e_target data)))"

definition extremities :: "graph \<Rightarrow> key \<Rightarrow> error + (key \<times> key)" where
  "extremities g edge =
     (if \<not> hasEdge1 g edge then Inl NotFoundGraphError
      else (case source g edge of
              Inl err \<Rightarrow> Inl err
            | Inr s \<Rightarrow> (case target g edge of Inl err \<Rightarrow> Inl err | Inr t \<Rightarrow> Inr (s, t))))"

text \<open>
  \<open>relatedNode(node, edge)\<close>: the guards look the node and the edge up in the stores,
  and \<open>node === node1\<close> compares the id as the caller gave it with the id as the edge
  record holds it.
\<close>

definition relatedNode :: "graph \<Rightarrow> key \<Rightarrow> key \<Rightarrow> error + key" where
  "relatedNode g node edge =
     (if \<not> hasNode g node then Inl NotFoundGraphError
      else if \<not> hasEdge1 g edge then Inl NotFoundGraphError
      else (case extremities g edge of
              Inl err \<Rightarrow> Inl err
            | Inr (node1, node2) \<Rightarrow> Inr (if node = node1 then node2 else node1)))"

subsection \<open>The public counters\<close>


definition size_g :: "graph \<Rightarrow> int" where
  "size_g g = p_size g"

subsection \<open>Graphs of the scenarios\<close>

text \<open>A generator whose key tells the kind it was asked for.\<close>

definition example_uuid :: generator where
  "example_uuid u s t a =
     Str ((if u then ''undirected:'' else ''directed:'') @ name_of s @ ''-'' @ name_of t)"

text \<open>\<open>new Graph(null, opts)\<close>, then \<open>addNode('A')\<close> and \<open>addNode('B')\<close>.\<close>

definition two_nodes :: "options \<Rightarrow> graph" where
  "two_nodes opts =
     snd (addNode (snd (addNode (Graph example_uuid opts) (Str ''A'') None)) (Str ''B'') None)"

text \<open>Scenario A: a directed graph, nodes A and B, the edge \<open>e1\<close> from A to B.\<close>

definition scenario_A :: graph where
  "scenario_A =
     snd (addDirectedEdgeWithKey (two_nodes (no_options\<lparr>o_type := Some Directed\<rparr>))
            (Str ''e1'') (Str ''A'') (Str ''B'') ArgUndefined)"

text \<open>
  Nodes A and B joined by a directed edge \<open>d\<close> and by an undirected edge \<open>u\<close>, in a
  graph that allows both kinds.
\<close>

definition mixed_pair :: "options \<Rightarrow> key \<Rightarrow> key \<Rightarrow> graph" where
  "mixed_pair opts d u =
     snd (addUndirectedEdgeWithKey
            (snd (addDirectedEdgeWithKey (two_nodes opts) d (Str ''A'') (Str ''B'')
                    ArgUndefined))
            u (Str ''A'') (Str ''B'') ArgUndefined)"

text \<open>
  \<open>new Graph()\<close>, then \<open>addNode(1)\<close>, \<open>addNode(2)\<close> and
  \<open>addDirectedEdgeWithKey('e', 1, 2)\<close>: the ids of the nodes are numbers.
\<close>

definition numbered :: graph where
  "numbered =
     snd (addDirectedEdgeWithKey
            (snd (addNode (snd (addNode (Graph example_uuid no_options) (Number 1) None))
                    (Number 2) None))
            (Str ''e'') (Number 1) (Number 2) ArgUndefined)"

subsection \<open>Calls and reachable instances\<close>

text \<open>
  The public methods that write to the instance. Besides the mutations these are the
  index methods and the lookups by source and target, which compute the structure index
  on demand.
\<close>

datatype call =
    AddNode key "jsarg option"
  | AddNodesFrom bunch
  | AddEdgeWithKey key key key jsarg
  | AddDirectedEdgeWithKey key key key jsarg
  | AddUndirectedEdgeWithKey key key key jsarg
  | AddEdge key key jsarg
  | AddDirectedEdge key key jsarg
  | AddUndirectedEdge key key jsarg
  | DropNode key
  | DropEdge key
  | Clear
  | ComputeIndex string
  | ClearIndex string
  | HasEdge2 key key
  | HasDirectedEdge2 key key
  | HasUndirectedEdge2 key key
  | GetEdge key key
  | GetDirectedEdge key key
  | GetUndirectedEdge key key

text \<open>What a call threw, if it threw, and the instance as it left it.\<close>

definition thrown :: "'a result \<Rightarrow> error option \<times> graph" where
  "thrown r = (case r of (Inl err, g) \<Rightarrow> (Some err, g) | (Inr v, g) \<Rightarrow> (None, g))"

fun run :: "graph \<Rightarrow> call \<Rightarrow> error option \<times> graph" where
  "run g (AddNode n a) = thrown (addNode g n a)"
| "run g (AddNodesFrom b) = thrown (addNodesFrom g b)"
| "run g (AddEdgeWithKey e s t a) = thrown (addEdgeWithKey g e s t a)"
| "run g (AddDirectedEdgeWithKey e s t a) = thrown (addDirectedEdgeWithKey g e s t a)"
| "run g (AddUndirectedEdgeWithKey e s t a) = thrown (addUndirectedEdgeWithKey g e s t a)"
| "run g (AddEdge s t a) = thrown (addEdge g s t a)"
| "run g (AddDirectedEdge s t a) = thrown (addDirectedEdge g s t a)"
| "run g (AddUndirectedEdge s t a) = thrown (addUndirectedEdge g s t a)"
| "run g (DropNode n) = thrown (dropNode g n)"
| "run g (DropEdge e) = thrown (dropEdge g e)"
| "run g Clear = (None, clear g)"
| "run g (ComputeIndex name) = thrown (computeIndex g name)"
| "run g (ClearIndex name) = thrown (clearIndex g name)"
| "run g (HasEdge2 s t) = thrown (hasEdge2 g s t)"
| "run g (HasDirectedEdge2 s t) = thrown (hasDirectedEdge2 g s t)"
| "run g (HasUndirectedEdge2 s t) = thrown (hasUndirectedEdge2 g s t)"
| "run g (GetEdge s t) = thrown (getEdge g s t)"
| "run g (GetDirectedEdge s t) = thrown (getDirectedEdge g s t)"
| "run g (GetUndirectedEdge s t) = thrown (getUndirectedEdge g s t)"

text \<open>
  The instances a program can hold: a new graph, and what any call leaves of a reachable
  instance, whether the call returned or threw.
\<close>

inductive reachable :: "graph \<Rightarrow> bool" where
  constructed: "reachable (Graph uuid opts)"
| called: "reachable g \<Longrightarrow> reachable (snd (run g c))"

subsection \<open>Add-edge calls\<close>


text \<open>
  The node store without the adjacency registers: the node keys in their order, each
  with its attributes and its four counters.
\<close>

definition bare_nodes :: "graph \<Rightarrow> (key \<times> node_data) list" where
  "bare_nodes g = map (\<lambda>(k, d). (k, discard_registers d)) (p_nodes g)"

text \<open>What a call may change when all it writes is the structure index.\<close>

definition frame :: "graph \<Rightarrow> graph \<Rightarrow> bool" where
  "frame g g' \<longleftrightarrow>
     p_order g' = p_order g \<and> p_size g' = p_size g \<and> p_edges g' = p_edges g \<and>
     bare_nodes g' = bare_nodes g"



section \<open>Properties\<close>

subsection \<open>What a write to a node object leaves alone\<close>

lemma map_fst_map_entry: "map fst (AList.map_entry k f xs) = map fst xs"
  by (induction xs) auto

lemma nodes_write_fields [simp]:
  "p_order (nodes_write n f g) = p_order g"
  "p_size (nodes_write n f g) = p_size g"
  "p_edges (nodes_write n f g) = p_edges g"
  "p_indices (nodes_write n f g) = p_indices g"
  "p_edgeKeyGenerator (nodes_write n f g) = p_edgeKeyGenerator g"
  "opt_map (nodes_write n f g) = opt_map g"
  "opt_multi (nodes_write n f g) = opt_multi g"
  "opt_type (nodes_write n f g) = opt_type g"
  "opt_selfLoops (nodes_write n f g) = opt_selfLoops g"
  "map fst (p_nodes (nodes_write n f g)) = map fst (p_nodes g)"
  by (simp_all add: nodes_write_def map_fst_map_entry split: option.splits)

lemma slot_cong: "opt_map h = opt_map g \<Longrightarrow> slot h k = slot g k"
  by (simp add: slot_def)

lemma inherited_cong: "opt_map h = opt_map g \<Longrightarrow> inherited h k = inherited g k"
  by (simp add: inherited_def)

lemma slot_nodes_write [simp]: "slot (nodes_write n f g) k = slot g k"
  by (simp add: slot_def)

lemma inherited_nodes_write [simp]: "inherited (nodes_write n f g) k = inherited g k"
  by (simp add: inherited_def)

lemma slot_idem [simp]: "slot g (slot g k) = slot g k"
  by (simp add: slot_def)

lemma inherited_slot [simp]: "inherited g (slot g k) = inherited g k"
  by (simp add: inherited_def slot_def)

lemma inherited_same_slot: "slot g a = slot g b \<Longrightarrow> inherited g a = inherited g b"
  by (auto simp add: inherited_def slot_def split: if_splits)

lemma name_same_slot: "\<not> opt_map g \<Longrightarrow> slot g a = slot g b \<Longrightarrow> name_of a = name_of b"
  by (simp add: slot_def)

lemma hasNode_keys:
  "hasNode g n \<longleftrightarrow> slot g n \<in> set (map fst (p_nodes g)) \<or> inherited g n"
  by (simp add: hasNode_def map_of_eq_None_iff)

lemma hasEdge1_keys:
  "hasEdge1 g e \<longleftrightarrow> slot g e \<in> set (map fst (p_edges g)) \<or> inherited g e"
  by (simp add: hasEdge1_def map_of_eq_None_iff)

lemma hasNode_cong:
  "map fst (p_nodes h) = map fst (p_nodes g) \<Longrightarrow> opt_map h = opt_map g \<Longrightarrow>
     hasNode h n = hasNode g n"
  by (simp add: hasNode_keys slot_cong [of h g] inherited_cong [of h g])

lemma hasNode_nodes_get: "hasNode g n \<longleftrightarrow> nodes_get g n \<noteq> None"
  by (simp add: hasNode_def nodes_get_def split: option.splits)

lemma hasNode_nodes_write [simp]: "hasNode (nodes_write n f g) m = hasNode g m"
  by (simp add: hasNode_keys)

text \<open>A write changes the object it names and no other.\<close>

lemma nodes_get_nodes_write:
  "nodes_get (nodes_write n f g) m =
     (if slot g m = slot g n then map_option f (nodes_get g m) else nodes_get g m)"
proof (cases "map_of (p_nodes g) (slot g n)")
  case (Some d)
  then have w: "nodes_write n f g = g\<lparr>p_nodes := AList.map_entry (slot g n) f (p_nodes g)\<rparr>"
    by (simp add: nodes_write_def)
  show ?thesis
    unfolding w using Some
    by (auto simp add: nodes_get_def slot_def inherited_def builtin_def map_of_map_entry
          split: option.splits)
next
  case None
  show ?thesis
  proof (cases "inherited g n")
    case True
    then have w: "nodes_write n f g =
        g\<lparr>p_builtins := AList.update (name_of n) (f (builtin g n)) (p_builtins g)\<rparr>"
      using None by (simp add: nodes_write_def)
    have m: "\<not> opt_map g" using True by (simp add: inherited_def)
    show ?thesis
      unfolding w using None True m
      by (auto simp add: nodes_get_def slot_def inherited_def builtin_def update_conv'
            split: option.splits)
  next
    case False
    then have w: "nodes_write n f g = g" using None by (simp add: nodes_write_def)
    show ?thesis
      unfolding w using None False inherited_same_slot [of g m n]
      by (auto simp add: nodes_get_def split: option.splits)
  qed
qed

subsection \<open>What the index methods leave alone\<close>

lemma updateStructureIndex_frame [simp]:
  "map fst (p_nodes (updateStructureIndex g e d)) = map fst (p_nodes g)"
  "p_indices (updateStructureIndex g e d) = p_indices g"
  "p_edges (updateStructureIndex g e d) = p_edges g"
  "p_order (updateStructureIndex g e d) = p_order g"
  "p_size (updateStructureIndex g e d) = p_size g"
  "opt_map (updateStructureIndex g e d) = opt_map g"
  "opt_multi (updateStructureIndex g e d) = opt_multi g"
  "opt_type (updateStructureIndex g e d) = opt_type g"
  "opt_selfLoops (updateStructureIndex g e d) = opt_selfLoops g"
  "p_edgeKeyGenerator (updateStructureIndex g e d) = p_edgeKeyGenerator g"
  by (simp_all add: updateStructureIndex_def)

lemma structure_in_INDICES: "''structure'' \<in> set INDICES"
  by (simp add: INDICES_def)

lemma p_updateIndex_structure:
  "p_updateIndex g ''structure'' e d =
     (Inr (), if computed (ix_structure (p_indices g)) then updateStructureIndex g e d else g)"
  by (simp add: p_updateIndex_def structure_in_INDICES)

lemma updateIndex_each_frame:
  "fst (updateIndex_each g ''structure'' es) = Inr () \<and>
   map fst (p_nodes (snd (updateIndex_each g ''structure'' es))) = map fst (p_nodes g) \<and>
   p_indices (snd (updateIndex_each g ''structure'' es)) = p_indices g \<and>
   opt_map (snd (updateIndex_each g ''structure'' es)) = opt_map g \<and>
   opt_type (snd (updateIndex_each g ''structure'' es)) = opt_type g \<and>
   opt_multi (snd (updateIndex_each g ''structure'' es)) = opt_multi g"
proof (induction es arbitrary: g)
  case Nil
  show ?case by simp
next
  case (Cons x es)
  obtain e d where x: "x = (e, d)" by (cases x)
  show ?case
    using Cons.IH [of "if computed (ix_structure (p_indices g))
                       then updateStructureIndex g e d else g"]
    by (simp add: x p_updateIndex_structure)
qed

lemma computeIndex_structure_frame:
  "fst (computeIndex g ''structure'') = Inr ()"
  "map fst (p_nodes (snd (computeIndex g ''structure''))) = map fst (p_nodes g)"
  "computed (ix_structure (p_indices (snd (computeIndex g ''structure''))))"
  "opt_map (snd (computeIndex g ''structure'')) = opt_map g"
  "opt_type (snd (computeIndex g ''structure'')) = opt_type g"
  "opt_multi (snd (computeIndex g ''structure'')) = opt_multi g"
  using updateIndex_each_frame [of "set_structure_computed True g" "p_edges g"]
  by (simp_all add: computeIndex_def structure_in_INDICES set_structure_computed_def)


lemma computeIndex_computed:
  "computed (ix_structure (p_indices g)) \<Longrightarrow> computeIndex g ''structure'' = (Inr (), g)"
  by (simp add: computeIndex_def structure_in_INDICES)

lemma hasNode_computeIndex [simp]:
  "hasNode (snd (computeIndex g ''structure'')) n = hasNode g n"
  by (rule hasNode_cong) (simp_all add: computeIndex_structure_frame)

subsection \<open>Scenario A\<close>

text \<open>
  C1 (the code departs from the claim). In scenario A the lookup
  \<open>hasDirectedEdge('A', 'B')\<close> returns true, but \<open>degree('A')\<close> and \<open>degree('B')\<close>
  return \<open>NaN\<close>, not 1: in a graph of type \<open>directed\<close>, \<open>addNode\<close> gives a node no
  \<open>undirectedDegree\<close>, and \<open>degree\<close> adds that \<open>undefined\<close> to the directed counters.
  \<open>directedDegree\<close>, which does not read it, returns 1 for both nodes.
\<close>

theorem scenario_A_degree_is_NaN:
  "fst (hasDirectedEdge2 scenario_A (Str ''A'') (Str ''B'')) = Inr True \<and>
   degree scenario_A (Str ''A'') (Some True) = Inr NaN \<and>
   degree scenario_A (Str ''B'') (Some True) = Inr NaN \<and>
   directedDegree scenario_A (Str ''A'') (Some True) = Inr (Num 1) \<and>
   directedDegree scenario_A (Str ''B'') (Some True) = Inr (Num 1)"
  by code_simp

theorem scenario_A_degree_is_NaN_witness:
  "degree scenario_A (Str ''A'') (Some True) \<noteq> Inr (Num 1) \<and>
   degree scenario_A (Str ''B'') (Some True) \<noteq> Inr (Num 1)"
  using scenario_A_degree_is_NaN by simp

subsection \<open>The generated key of an undirected edge\<close>

text \<open>
  C2 (the code departs from the claim). \<open>addUndirectedEdge\<close> calls the generator with
  \<open>false\<close> as its first argument, as \<open>addDirectedEdge\<close> does, and adds the undirected
  edge under the key the generator returns for a directed one: in an undirected graph
  with the nodes A and B and a generator that tells the two kinds apart,
  \<open>addUndirectedEdge('A', 'B')\<close> returns the key made for a directed edge, while
  \<open>addEdge('A', 'B')\<close>, which passes \<open>type === 'undirected'\<close>, returns the key made
  for an undirected one.
\<close>

theorem addUndirectedEdge_generator_flag:
  "addUndirectedEdge g s t a = p_addEdge g True (p_edgeKeyGenerator g False s t a) s t a \<and>
   fst (addUndirectedEdge (two_nodes (no_options\<lparr>o_type := Some Undirected\<rparr>))
          (Str ''A'') (Str ''B'') ArgUndefined) = Inr (Str ''directed:A-B'') \<and>
   undirected (snd (addUndirectedEdge (two_nodes (no_options\<lparr>o_type := Some Undirected\<rparr>))
          (Str ''A'') (Str ''B'') ArgUndefined)) (Str ''directed:A-B'') = Inr (Some True) \<and>
   fst (addEdge (two_nodes (no_options\<lparr>o_type := Some Undirected\<rparr>))
          (Str ''A'') (Str ''B'') ArgUndefined) = Inr (Str ''undirected:A-B'')"
proof -
  have "addUndirectedEdge g s t a = p_addEdge g True (p_edgeKeyGenerator g False s t a) s t a"
    by (simp add: addUndirectedEdge_def)
  moreover have
    "fst (addUndirectedEdge (two_nodes (no_options\<lparr>o_type := Some Undirected\<rparr>))
          (Str ''A'') (Str ''B'') ArgUndefined) = Inr (Str ''directed:A-B'')"
    by code_simp
  moreover have
    "undirected (snd (addUndirectedEdge (two_nodes (no_options\<lparr>o_type := Some Undirected\<rparr>))
          (Str ''A'') (Str ''B'') ArgUndefined)) (Str ''directed:A-B'') = Inr (Some True)"
    by code_simp
  moreover have
    "fst (addEdge (two_nodes (no_options\<lparr>o_type := Some Undirected\<rparr>))
          (Str ''A'') (Str ''B'') ArgUndefined) = Inr (Str ''undirected:A-B'')"
    by code_simp
  ultimately show ?thesis by simp
qed

theorem addUndirectedEdge_generator_flag_witness:
  "fst (addUndirectedEdge (two_nodes (no_options\<lparr>o_type := Some Undirected\<rparr>))
          (Str ''A'') (Str ''B'') ArgUndefined) \<noteq>
   fst (addEdge (two_nodes (no_options\<lparr>o_type := Some Undirected\<rparr>))
          (Str ''A'') (Str ''B'') ArgUndefined)"
  using addUndirectedEdge_generator_flag [of scenario_A "Str ''A''" "Str ''B''" ArgUndefined]
  by simp

subsection \<open>Lookups by source and target\<close>





text \<open>
  C7 (the code departs from the claim). \<open>getEdge\<close> tests what the directed lookup
  returned with \<open>if (edge)\<close>, so a directed edge whose key is falsy does not count as a
  hit. In a mixed graph where the directed edge with the empty string as its key and the
  undirected edge \<open>u\<close> both join A and B, the directed lookup finds the directed edge
  and \<open>getEdge('A', 'B')\<close> returns \<open>u\<close>. With the key \<open>d\<close> for the directed edge it
  returns \<open>d\<close>.
\<close>

theorem getEdge_falsy_directed_key:
  "fst (getDirectedEdge (mixed_pair no_options (Str '''') (Str ''u'')) (Str ''A'') (Str ''B'')) =
     Inr (Some (Str '''')) \<and>
   fst (getEdge (mixed_pair no_options (Str '''') (Str ''u'')) (Str ''A'') (Str ''B'')) =
     Inr (Some (Str ''u'')) \<and>
   fst (getEdge (mixed_pair no_options (Str ''d'') (Str ''u'')) (Str ''A'') (Str ''B'')) =
     Inr (Some (Str ''d''))"
  by code_simp

theorem getEdge_falsy_directed_key_witness:
  "fst (getEdge (mixed_pair no_options (Str []) (Str ''u'')) (Str ''A'') (Str ''B'')) \<noteq>
   fst (getDirectedEdge (mixed_pair no_options (Str []) (Str ''u'')) (Str ''A'') (Str ''B''))"
  using getEdge_falsy_directed_key by simp

subsection \<open>Computing the index twice\<close>

text \<open>
  C9. \<open>computeIndex('structure')\<close> on a graph whose structure index is computed
  returns at once and leaves the whole instance as it was; in particular a second call
  right after a first one changes nothing and inserts no edge again.
\<close>

theorem computeIndex_idempotent:
  "(computed (ix_structure (p_indices g)) \<longrightarrow> computeIndex g ''structure'' = (Inr (), g)) \<and>
   computeIndex (snd (computeIndex g ''structure'')) ''structure'' =
     (Inr (), snd (computeIndex g ''structure''))"
  using computeIndex_computed [of g]
    computeIndex_computed [OF computeIndex_structure_frame(3) [of g]]
  by simp

theorem computeIndex_idempotent_witness:
  "computed (ix_structure (p_indices scenario_A)) \<and>
   computeIndex scenario_A ''structure'' = (Inr (), scenario_A)"
proof -
  have c: "computed (ix_structure (p_indices scenario_A))" by code_simp
  from computeIndex_idempotent [of scenario_A] c show ?thesis by simp
qed

subsection \<open>Lookups by key in a graph with map = true\<close>

text \<open>
  C10. In a graph with \<open>map = true\<close>, \<open>hasDirectedEdge(edge)\<close> and
  \<open>hasUndirectedEdge(edge)\<close> return true for every key of the edge store, whatever the
  kind of the edge: the kind is read only when \<open>map\<close> is false.
\<close>

theorem has_kind_edge_by_key_map:
  "opt_map g \<Longrightarrow> hasEdge1 g edge \<Longrightarrow>
     hasDirectedEdge1 g edge = Inr True \<and> hasUndirectedEdge1 g edge = Inr (Some True)"
  by (simp add: hasDirectedEdge1_def hasUndirectedEdge1_def)

theorem has_kind_edge_by_key_map_witness:
  "undirected (mixed_pair (no_options\<lparr>o_map := Some True\<rparr>) (Str ''d'') (Str ''u'')) (Str ''d'') =
     Inr (Some False) \<and>
   hasUndirectedEdge1 (mixed_pair (no_options\<lparr>o_map := Some True\<rparr>) (Str ''d'') (Str ''u''))
     (Str ''d'') = Inr (Some True) \<and>
   undirected (mixed_pair (no_options\<lparr>o_map := Some True\<rparr>) (Str ''d'') (Str ''u'')) (Str ''u'') =
     Inr (Some True) \<and>
   hasDirectedEdge1 (mixed_pair (no_options\<lparr>o_map := Some True\<rparr>) (Str ''d'') (Str ''u''))
     (Str ''u'') = Inr True"
proof -
  let ?g = "mixed_pair (no_options\<lparr>o_map := Some True\<rparr>) (Str ''d'') (Str ''u'')"
  have m: "opt_map ?g" by code_simp
  have d: "hasEdge1 ?g (Str ''d'')" by code_simp
  have u: "hasEdge1 ?g (Str ''u'')" by code_simp
  have kd: "undirected ?g (Str ''d'') = Inr (Some False)" by code_simp
  have ku: "undirected ?g (Str ''u'') = Inr (Some True)" by code_simp
  show ?thesis
    using has_kind_edge_by_key_map [OF m d] has_kind_edge_by_key_map [OF m u] kd ku by simp
qed

subsection \<open>Names inherited by a plain store\<close>

lemma snd_thrown [simp]: "snd (thrown r) = snd r"
  by (simp add: thrown_def split: prod.splits sum.splits)


text \<open>
  C3 (the code departs from the claim). The guard of \<open>dropEdge\<close> is
  \<open>edge in this._edges\<close>, which for a plain store is also true of the names the store
  inherits. On a new graph, \<open>dropEdge('toString')\<close> passes the guard, removes no
  record, decrements \<open>_size\<close> and then throws a \<open>TypeError\<close> on the counters of a
  node that is not there: the instance it leaves has \<open>size\<close> -1 and no edge record.
\<close>

theorem dropEdge_inherited_name:
  "reachable (snd (run (Graph example_uuid no_options) (DropEdge (Str ''toString'')))) \<and>
   fst (run (Graph example_uuid no_options) (DropEdge (Str ''toString''))) = Some TypeError \<and>
   size_g (snd (run (Graph example_uuid no_options) (DropEdge (Str ''toString'')))) = - 1 \<and>
   p_edges (snd (run (Graph example_uuid no_options) (DropEdge (Str ''toString'')))) = []"
proof -
  have "reachable (snd (run (Graph example_uuid no_options) (DropEdge (Str ''toString''))))"
    by (rule reachable.called [OF reachable.constructed])
  moreover have
    "fst (run (Graph example_uuid no_options) (DropEdge (Str ''toString''))) = Some TypeError"
    by code_simp
  moreover have
    "size_g (snd (run (Graph example_uuid no_options) (DropEdge (Str ''toString'')))) = - 1"
    by code_simp
  moreover have
    "p_edges (snd (run (Graph example_uuid no_options) (DropEdge (Str ''toString'')))) = []"
    by code_simp
  ultimately show ?thesis by simp
qed

theorem dropEdge_inherited_name_witness:
  "size_g (snd (run (Graph example_uuid no_options) (DropEdge (Str ''toString'')))) \<noteq>
   int (length (p_edges (snd (run (Graph example_uuid no_options)
                                 (DropEdge (Str ''toString''))))))"
  using dropEdge_inherited_name by simp

text \<open>
  C8 (the code departs from the claim). The guards of \<open>relatedNode\<close> are
  \<open>node in this._nodes\<close> and \<open>edge in this._edges\<close>. In scenario A, whose nodes are
  A and B and whose only edge is \<open>e1\<close>, \<open>relatedNode('toString', 'e1')\<close> does not
  throw but returns A, and \<open>relatedNode('A', 'constructor')\<close> returns \<open>undefined\<close>.
  The extremities are compared with \<open>===\<close> as the edge record holds them: when the
  nodes 1 and 2 were added as numbers and \<open>e\<close> goes from 1 to 2, \<open>relatedNode(1, 'e')\<close>
  returns 2, but \<open>relatedNode('1', 'e')\<close>, which names the same node of the plain
  store, returns 1.
\<close>

theorem relatedNode_inherited_name:
  "map fst (p_nodes scenario_A) = [Str ''A'', Str ''B''] \<and>
   map fst (p_edges scenario_A) = [Str ''e1''] \<and>
   relatedNode scenario_A (Str ''toString'') (Str ''e1'') = Inr (Str ''A'') \<and>
   relatedNode scenario_A (Str ''A'') (Str ''constructor'') = Inr UndefinedKey \<and>
   source numbered (Str ''e'') = Inr (Number 1) \<and>
   target numbered (Str ''e'') = Inr (Number 2) \<and>
   relatedNode numbered (Number 1) (Str ''e'') = Inr (Number 2) \<and>
   relatedNode numbered (Str ''1'') (Str ''e'') = Inr (Number 1)"
  by code_simp

theorem relatedNode_inherited_name_witness:
  "relatedNode scenario_A (Str ''toString'') (Str ''e1'') \<noteq> Inl NotFoundGraphError \<and>
   relatedNode scenario_A (Str ''A'') (Str ''constructor'') \<noteq> Inl NotFoundGraphError \<and>
   relatedNode numbered (Str ''1'') (Str ''e'') \<noteq> Inr (Number 2)"
  using relatedNode_inherited_name by simp

subsection \<open>Add-edge calls that throw\<close>


lemma discard_registers_add [simp]:
  "discard_registers (add_out u n e d) = discard_registers d"
  "discard_registers (add_in u n e d) = discard_registers d"
  by (simp_all add: discard_registers_def add_out_def add_in_def)

lemma frame_refl [simp]: "frame g g"
  by (simp add: frame_def)















end
